theory Spec2Isabelle
  imports Complex_Main "HOL-Library.Sublist"
begin

section \<open>Data model of the doubles bot (botVGC.py)\<close>

text \<open>
  The bot reads objects of the battle client: moves, combatants and the battle itself.
  Each is a record holding the attributes the bot reads. An attribute that the bot guards
  with \<^verbatim>\<open>x or default\<close>, with \<^verbatim>\<open>getattr(x, name, default)\<close> or with a truth test
  is an option, \<open>None\<close> being Python's \<^verbatim>\<open>None\<close>.

  Python's integers are unbounded, as \<open>int\<close> is. Strings are ASCII, and
  \<^verbatim>\<open>str.lower\<close> maps the letters A to Z to a to z.

  A Python float is a double, and the model holds its value as a real number. The stage
  multiplier and the spread scorer round every quotient, product and sum to the nearest
  double, as Python does (section Doubles). The single-target scorer keeps exact sums and
  products: what is proved of it concerns the score 0, the sign of a score and sums of small
  integers and halves.
\<close>

text \<open>
  The exceptions of class \<^verbatim>\<open>Exception\<close>: those that the bot's own code raises, and
  \<open>ClientError\<close> for any other that the battle client raises.
\<close>

datatype exn = TypeError | ZeroDivisionError | OverflowError | ClientError string

text \<open>
  The attribute \<^verbatim>\<open>move.target\<close> as the function \<^verbatim>\<open>_target_str\<close> tells its shapes apart:
  a string, an object with a \<^verbatim>\<open>name\<close> (the string is \<^verbatim>\<open>str(name)\<close>), an object with
  no name and a \<^verbatim>\<open>value\<close>, any other object (the string is \<^verbatim>\<open>str(t)\<close>), \<^verbatim>\<open>None\<close>,
  and an object whose conversion raises.
\<close>

datatype target_field =
    TargetStr string
  | TargetNamed string
  | TargetValued string
  | TargetOther string
  | TargetNone
  | TargetRaises

record move =
  move_id :: "string option"
  move_type :: "string option"
  base_power :: "int option"
  accuracy :: "real option"
  category :: string
  target :: target_field
  recharge :: bool

text \<open>
  A combatant. \<open>ident\<close> is the identity of the Python object (the bot compares
  combatants with \<^verbatim>\<open>is\<close>); \<open>types\<close> holds the names of its elemental types;
  \<open>moves\<close> holds the values of its dictionary of known moves.
\<close>

record pokemon =
  ident :: nat
  current_hp_fraction :: "real option"
  status :: "string option"
  boosts :: "string \<rightharpoonup> int"
  types :: "string list"
  ability :: "string option"
  item :: "string option"
  fainted :: bool
  last_move :: "move option"
  moves :: "move list"

text \<open>The opponent profile, the dictionary \<^verbatim>\<open>{"protect": bool, "speed_ctrl": bool}\<close>.\<close>

record profile =
  protect :: bool
  speed_ctrl :: bool

text \<open>
  \<^verbatim>\<open>battle.available_moves\<close> is either a list of lists, one per slot, or a flat list.
\<close>

datatype available = PerSlot "move list list" | Flat "move list"

record battle =
  opponent_username :: "string option"
  active_pokemon :: "pokemon option list"
  opponent_active_pokemon :: "pokemon option list"
  available_moves :: available
  available_moves2 :: "move list option"
  opponent_team :: "pokemon option list"
  turn :: int

text \<open>The state of the player object that the bot writes.\<close>

record bot_state =
  series_memory :: "string \<rightharpoonup> profile"
  prefer_target_slot :: "nat option"

text \<open>
  The type chart of the battle client: \<^verbatim>\<open>atk_type.damage_multiplier(*defender.types,
  type_chart=...)\<close>, a function of the attacking type and the defender's types.
\<close>

type_synonym chart = "string \<Rightarrow> string list \<Rightarrow> real"

section \<open>Constants\<close>

definition SPREAD_DAMAGE_MOD :: real where
  "SPREAD_DAMAGE_MOD = 0.75"

definition SETUP_IDS :: "string set" where
  "SETUP_IDS = {''swordsdance'', ''nastyplot'', ''calmmind'', ''quiverdance'', ''bulkup''}"

definition PROTECT_IDS :: "string set" where
  "PROTECT_IDS = {''protect'', ''detect'', ''spikyshield'', ''kingsshield'',
     ''banefulbunker'', ''silktrap''}"

definition SPEED_CTRL :: "string set" where
  "SPEED_CTRL = {''trickroom'', ''tailwind'', ''icywind'', ''electroweb''}"

definition REDIRECT_IDS :: "string set" where
  "REDIRECT_IDS = {''followme'', ''ragepowder''}"

definition PIVOT_IDS :: "string set" where
  "PIVOT_IDS = {''uturn'', ''voltswitch'', ''flipturn'', ''partingshot'', ''teleport''}"

definition WIDE_GUARD_IDS :: "string set" where
  "WIDE_GUARD_IDS = {''wideguard''}"

definition SPREAD_HINTS :: "string set" where
  "SPREAD_HINTS = {''earthquake'', ''bulldoze'', ''rockslide'', ''dazzlinggleam'', ''heatwave'',
     ''snarl'', ''muddywater'', ''eruption'', ''blizzard'', ''discharge'', ''hypervoice'',
     ''sludgewave'', ''water_spout'', ''makeitrain'', ''glaciallance'', ''originpulse'',
     ''precipiceblades'', ''astralbarrage''}"

definition AOE_FRIENDLY_FIRE :: "string set" where
  "AOE_FRIENDLY_FIRE = {''earthquake'', ''bulldoze'', ''eruption'', ''water_spout'', ''surf'',
     ''discharge'', ''sludgewave'', ''explosion'', ''selfdestruct''}"

definition HARMFUL_ALLY_SINGLES :: "string set" where
  "HARMFUL_ALLY_SINGLES = {''beatup''}"

section \<open>Strings and attribute access\<close>

definition lower_char :: "char \<Rightarrow> char" where
  "lower_char c =
     (case map_of (zip ''ABCDEFGHIJKLMNOPQRSTUVWXYZ'' ''abcdefghijklmnopqrstuvwxyz'') c of
        Some d \<Rightarrow> d
      | None \<Rightarrow> c)"

definition lower :: "string \<Rightarrow> string" where
  "lower s = map lower_char s"

text \<open>\<^verbatim>\<open>(x or "")\<close> for a string attribute.\<close>

definition or_empty :: "string option \<Rightarrow> string" where
  "or_empty x = (case x of None \<Rightarrow> [] | Some s \<Rightarrow> s)"

text \<open>\<^verbatim>\<open>any(k in mid for k in ks)\<close>: some element of \<open>ks\<close> is a substring of \<open>mid\<close>.\<close>

definition any_in :: "string set \<Rightarrow> string \<Rightarrow> bool" where
  "any_in ks mid = (\<exists>k\<in>ks. sublist k mid)"

text \<open>\<^verbatim>\<open>int(getattr(me, "boosts", {}).get(k, 0))\<close>.\<close>

definition boost :: "pokemon option \<Rightarrow> string \<Rightarrow> int" where
  "boost me k =
     (case me of
        None \<Rightarrow> 0
      | Some p \<Rightarrow> (case boosts p k of None \<Rightarrow> 0 | Some v \<Rightarrow> v))"

text \<open>\<^verbatim>\<open>getattr(me, "status", None)\<close>.\<close>

definition status_of :: "pokemon option \<Rightarrow> string option" where
  "status_of me = (case me of None \<Rightarrow> None | Some p \<Rightarrow> status p)"

text \<open>\<^verbatim>\<open>(move.base_power or 0)\<close>.\<close>

definition base_power_or0 :: "move \<Rightarrow> int" where
  "base_power_or0 m = (case base_power m of None \<Rightarrow> 0 | Some bp \<Rightarrow> bp)"

section \<open>Doubles\<close>

text \<open>
  Rounding to the nearest integer, a tie going to the even one.
\<close>

definition rhe :: "real \<Rightarrow> int" where
  "rhe y =
     (let f = \<lfloor>y\<rfloor>;
          d = y - of_int f
      in if d < 1 / 2 then f
         else if d > 1 / 2 then f + 1
         else if even f then f else f + 1)"

text \<open>The binary exponent of a positive number: \<open>2 ^ expo x \<le> x < 2 ^ (expo x + 1)\<close>.\<close>

function expo :: "real \<Rightarrow> int" where
  "expo x =
     (if x \<ge> 2 then expo (x / 2) + 1
      else if x \<ge> 1 then 0
      else if x \<ge> 1 / 2 then - 1
      else if x > 0 then expo (2 * x) - 1
      else 0)"
  by pat_completeness auto
termination
proof (relation "measure (\<lambda>x. nat (if x \<ge> 1 then \<lfloor>x\<rfloor> else \<lfloor>1 / x\<rfloor>))")
  show "wf (measure (\<lambda>x. nat (if x \<ge> 1 then \<lfloor>x\<rfloor> else \<lfloor>1 / x\<rfloor>)))"
    by simp
next
  fix x :: real
  assume "2 \<le> x"
  then have "\<lfloor>x / 2\<rfloor> < \<lfloor>x\<rfloor>" by linarith
  moreover from \<open>2 \<le> x\<close> have "0 < \<lfloor>x\<rfloor>" by linarith
  ultimately show "(x / 2, x) \<in> measure (\<lambda>x. nat (if x \<ge> 1 then \<lfloor>x\<rfloor> else \<lfloor>1 / x\<rfloor>))"
    using \<open>2 \<le> x\<close> by simp
next
  fix x :: real
  assume a: "\<not> 2 \<le> x" "\<not> 1 \<le> x" "\<not> 1 / 2 \<le> x" "0 < x"
  have half: "\<lfloor>y / 2\<rfloor> < \<lfloor>y\<rfloor>" if "2 \<le> y" for y :: real
    using that by linarith
  from a have big: "1 / x > 2" by (simp add: field_simps)
  then have "\<lfloor>(1 / x) / 2\<rfloor> < \<lfloor>1 / x\<rfloor>" by (intro half) simp
  moreover have "(1 / x) / 2 = 1 / (2 * x)" by simp
  ultimately have less: "\<lfloor>1 / (2 * x)\<rfloor> < \<lfloor>1 / x\<rfloor>" by (simp only:)
  from big have pos: "0 < \<lfloor>1 / x\<rfloor>" by linarith
  from a have small: "\<not> 1 \<le> 2 * x" "\<not> 1 \<le> x" by simp_all
  show "(2 * x, x) \<in> measure (\<lambda>x. nat (if x \<ge> 1 then \<lfloor>x\<rfloor> else \<lfloor>1 / x\<rfloor>))"
    unfolding in_measure using less pos small by (simp only: if_False)
qed

declare expo.simps [simp del]

text \<open>
  The double nearest to a real number that is not negative, a tie going to the even
  significand. Below \<open>2 ^ -1022\<close> the doubles are the multiples of \<open>2 ^ -1074\<close>; from
  there on a double has 53 significant bits. The exponent has no upper bound here: Python's
  infinity is not modelled, and \<open>overflows\<close> tells where Python's double would be
  infinite.
\<close>

definition round_pos :: "real \<Rightarrow> real" where
  "round_pos x =
     (if x < 2 powi (- 1022) then of_int (rhe (x * 2 ^ 1074)) * 2 powi (- 1074)
      else let e = expo x in of_int (rhe (x * 2 powi (52 - e))) * 2 powi (e - 52))"

definition round_double :: "real \<Rightarrow> real" where
  "round_double x = (if x < 0 then - round_pos (- x) else round_pos x)"

text \<open>
  A real number from \<open>2 ^ 1024 - 2 ^ 970\<close> on, in absolute value, is nearer to
  \<open>2 ^ 1024\<close> than to the largest double.
\<close>

definition overflows :: "real \<Rightarrow> bool" where
  "overflows x = (\<bar>x\<bar> \<ge> 2 ^ 1024 - 2 ^ 970)"

text \<open>The product and the sum of two doubles.\<close>

definition dmul :: "real \<Rightarrow> real \<Rightarrow> real" where
  "dmul x y = round_double (x * y)"

definition dadd :: "real \<Rightarrow> real \<Rightarrow> real" where
  "dadd x y = round_double (x + y)"

text \<open>
  The conversion of an integer that \<^verbatim>\<open>int * float\<close> makes: it raises an OverflowError on
  an integer too large for a double.
\<close>

definition float_of_int :: "int \<Rightarrow> exn + real" where
  "float_of_int n =
     (if overflows (real_of_int n) then Inl OverflowError
      else Inr (round_double (real_of_int n)))"

section \<open>Types, stages and normalisation\<close>

definition eff :: "chart \<Rightarrow> string option \<Rightarrow> pokemon option \<Rightarrow> real" where
  "eff ch atk_type defender =
     (case atk_type of
        None \<Rightarrow> 1
      | Some a \<Rightarrow> (case defender of None \<Rightarrow> 1 | Some d \<Rightarrow> ch a (types d)))"

definition stab :: "move \<Rightarrow> pokemon option \<Rightarrow> real" where
  "stab m attacker =
     (case move_type m of
        None \<Rightarrow> 1
      | Some ty \<Rightarrow>
          (case attacker of
             None \<Rightarrow> 1
           | Some a \<Rightarrow> if ty \<in> set (types a) then 1.5 else 1))"

definition acc :: "move \<Rightarrow> real" where
  "acc m = (case accuracy m of None \<Rightarrow> 1 | Some a \<Rightarrow> if a = 0 then 1 else a)"

definition target_str :: "move \<Rightarrow> string" where
  "target_str m =
     (case target m of
        TargetStr s \<Rightarrow> lower s
      | TargetNamed n \<Rightarrow> lower n
      | TargetValued v \<Rightarrow> lower v
      | TargetOther s \<Rightarrow> lower s
      | TargetNone \<Rightarrow> []
      | TargetRaises \<Rightarrow> [])"

definition is_spread :: "move \<Rightarrow> bool" where
  "is_spread m =
     (let t = target_str m;
          mid = lower (or_empty (move_id m))
      in mid \<in> SPREAD_HINTS \<or> t \<in> {''alladjacentfoes'', ''alladjacent'', ''all'', ''foes''})"

definition requires_explicit_target :: "move \<Rightarrow> bool" where
  "requires_explicit_target m =
     (if is_spread m then False
      else let t = target_str m
           in if t \<in> {''self'', ''ally'', ''allyteam'', ''allyside'', ''foeside'', ''allies'',
                       ''randomnormal''}
              then False
              else t \<in> {''normal'', ''adjacentfoe'', ''adjacentally'', ''any''})"

definition is_physical :: "move \<Rightarrow> bool" where
  "is_physical m = (lower (category m) = ''physical'')"

definition is_special :: "move \<Rightarrow> bool" where
  "is_special m = (lower (category m) = ''special'')"

text \<open>
  Python's \<^verbatim>\<open>a / b\<close> on integers: it raises on a zero divisor, it raises an OverflowError
  where the quotient is too large for a double, and it returns the double nearest to the
  quotient otherwise, which is 0.0 for a quotient of at most \<open>2 ^ -1075\<close>.
\<close>

definition truediv :: "int \<Rightarrow> int \<Rightarrow> exn + real" where
  "truediv a b =
     (if b = 0 then Inl ZeroDivisionError
      else let q = real_of_int a / real_of_int b
           in if overflows q then Inl OverflowError else Inr (round_double q))"

definition stage_mod :: "int \<Rightarrow> exn + real" where
  "stage_mod stage = truediv (2 + max stage 0) (if stage \<ge> 0 then 2 else 2 - stage)"

definition atk_mult :: "pokemon option \<Rightarrow> move \<Rightarrow> exn + real" where
  "atk_mult me m =
     (if is_physical m then
        (case stage_mod (boost me ''atk'') of
           Inl e \<Rightarrow> Inl e
         | Inr sm \<Rightarrow>
             (let mult = dmul 1 sm
              in if status_of me = Some ''brn'' then Inr (dmul mult (round_double 0.65))
                 else Inr mult))
      else if is_special m then
        (case stage_mod (boost me ''spa'') of
           Inl e \<Rightarrow> Inl e
         | Inr sm \<Rightarrow> Inr (dmul 1 sm))
      else Inr 1)"

section \<open>Single-target score\<close>

text \<open>
  \<^verbatim>\<open>getattr(last, "id", "").lower()\<close> raises on an id that is \<^verbatim>\<open>None\<close>; the
  function catches it and returns 1.0.
\<close>

definition protect_risk_factor :: "pokemon option \<Rightarrow> real" where
  "protect_risk_factor tgt =
     (case tgt of
        None \<Rightarrow> 1
      | Some t \<Rightarrow>
          (case last_move t of
             None \<Rightarrow> 1
           | Some lm \<Rightarrow>
               (case move_id lm of
                  None \<Rightarrow> 1
                | Some i \<Rightarrow> if lower i \<in> PROTECT_IDS then 0.6 else 1)))"

text \<open>The branch of \<^verbatim>\<open>_move_score_vs_single\<close> for a move with no base power.\<close>

definition utility_score :: "string \<Rightarrow> pokemon option \<Rightarrow> profile \<Rightarrow> real" where
  "utility_score mid me mem =
     (if any_in SETUP_IDS mid then
        (let need =
               (if sublist ''swordsdance'' mid \<or> sublist ''bulkup'' mid
                  then - boost me ''atk''
                else if any_in {''nastyplot'', ''calmmind'', ''quiverdance''} mid
                  then - boost me ''spa''
                else 0)
         in 26 + 1.5 * real_of_int (max 0 need))
      else if any_in SPEED_CTRL mid then
        (let spe_penalty = boost me ''spe'';
             par_pen = (if status_of me = Some ''par'' then 1 else 0)
         in 32 + 3 * real_of_int (max 0 (- spe_penalty + par_pen)))
      else if mid \<in> REDIRECT_IDS then 28
      else if mid \<in> PROTECT_IDS then 28 + (if protect mem then 3 else 0)
      else if mid \<in> WIDE_GUARD_IDS then 27
      else if mid \<in> PIVOT_IDS then
        (let atk_drop = boost me ''atk'';
             spa_drop = boost me ''spa'';
             drop_bonus = (if atk_drop \<le> - 2 \<or> spa_drop \<le> - 2 then 3 else 0)
         in 12 + drop_bonus)
      else 4)"

text \<open>The branch of \<^verbatim>\<open>_move_score_vs_single\<close> for an attack of base power \<open>bp\<close>.\<close>

definition attack_score ::
  "chart \<Rightarrow> move \<Rightarrow> int \<Rightarrow> string \<Rightarrow> pokemon option \<Rightarrow> pokemon option \<Rightarrow> exn + real" where
  "attack_score ch m bp mid me tgt =
     (let e = eff ch (move_type m) tgt
      in if e = 0 then Inr 0
         else
           (case atk_mult me m of
              Inl x \<Rightarrow> Inl x
            | Inr am \<Rightarrow>
                (let score = real_of_int bp * stab m me * e * acc m * am;
                     score = (if e \<ge> 4 then score * 1.20
                              else if e \<ge> 2 then score * 1.12 else score);
                     score = (case tgt of
                                None \<Rightarrow> score
                              | Some t \<Rightarrow>
                                  (case current_hp_fraction t of
                                     None \<Rightarrow> score
                                   | Some hp \<Rightarrow> if hp < 0.35 then score * 1.15 else score));
                     score = (if recharge m \<or> sublist ''hyperbeam'' mid
                              then score * 0.7 else score);
                     score = score * protect_risk_factor tgt
                 in Inr score)))"

definition move_score_vs_single ::
  "chart \<Rightarrow> move option \<Rightarrow> pokemon option \<Rightarrow> pokemon option \<Rightarrow> profile \<Rightarrow> exn + real" where
  "move_score_vs_single ch mv me tgt mem =
     (case mv of
        None \<Rightarrow> Inr 0
      | Some m \<Rightarrow>
          (let mid = lower (or_empty (move_id m));
               t = target_str m
           in if t \<in> {''adjacentally'', ''ally'', ''any''} \<and> base_power_or0 m > 0
                 \<and> mid \<in> HARMFUL_ALLY_SINGLES
              then Inr 0
              else
                (case base_power m of
                   None \<Rightarrow> Inr (utility_score mid me mem)
                 | Some bp \<Rightarrow>
                     if bp = 0 then Inr (utility_score mid me mem)
                     else attack_score ch m bp mid me tgt)))"

section \<open>Spread score and ally safety\<close>

definition ally_safe_for_aoe :: "string \<Rightarrow> string option \<Rightarrow> pokemon option \<Rightarrow> bool" where
  "ally_safe_for_aoe mv_id mv_type ally =
     (case ally of
        None \<Rightarrow> True
      | Some a \<Rightarrow>
          (let abil = lower (or_empty (ability a))
           in if abil = ''telepathy'' then True
              else
                (let mid = lower mv_id;
                     tys = set (types a);
                     itm = lower (or_empty (item a))
                 in if mid \<in> {''earthquake'', ''bulldoze''}
                      then ''Flying'' \<in> tys \<or> abil \<in> {''levitate''} \<or> itm = ''airballoon''
                    else if mid \<in> {''explosion'', ''selfdestruct''}
                      then ''Ghost'' \<in> tys
                    else if mid = ''discharge''
                      then ''Ground'' \<in> tys \<or> abil \<in> {''voltabsorb'', ''lightningrod''}
                    else if mid \<in> {''surf'', ''water_spout''}
                      then abil \<in> {''waterabsorb'', ''dryskin''}
                    else if mid \<in> {''heatwave'', ''eruption''}
                      then abil \<in> {''flashfire''}
                    else if mid = ''sludgewave'' then False
                    else False)))"

text \<open>\<^verbatim>\<open>[o for o in opps if o and not o.fainted]\<close>.\<close>

fun live_opps :: "pokemon option list \<Rightarrow> pokemon list" where
  "live_opps [] = []"
| "live_opps (None # os) = live_opps os"
| "live_opps (Some p # os) = (if fainted p then live_opps os else p # live_opps os)"

text \<open>
  The contribution \<^verbatim>\<open>part\<close> of one target to the spread sum. The product starts with
  \<^verbatim>\<open>move.base_power * self._stab(move, me)\<close>, which raises a TypeError on a base power
  that is \<^verbatim>\<open>None\<close> and an OverflowError on one too large for a double. Each product is
  rounded, in the order of the source; the protect-risk factor 0.6 enters as the double
  nearest to it.
\<close>

definition spread_part ::
  "chart \<Rightarrow> move \<Rightarrow> pokemon option \<Rightarrow> pokemon \<Rightarrow> real \<Rightarrow> exn + real" where
  "spread_part ch m me t e =
     (case base_power m of
        None \<Rightarrow> Inl TypeError
      | Some bp \<Rightarrow>
          (case float_of_int bp of
             Inl x \<Rightarrow> Inl x
           | Inr fbp \<Rightarrow>
               (let part = dmul (dmul (dmul fbp (stab m me)) e) (acc m)
                in case atk_mult me m of
                     Inl x \<Rightarrow> Inl x
                   | Inr am \<Rightarrow>
                       (let part = dmul part am;
                            part = (if e \<ge> 4 then dmul part (round_double 1.12)
                                    else if e \<ge> 2 then dmul part (round_double 1.06)
                                    else part);
                            part = (case current_hp_fraction t of
                                      None \<Rightarrow> part
                                    | Some hp \<Rightarrow>
                                        if hp < round_double 0.35
                                        then dmul part (round_double 1.10) else part);
                            part = dmul part (round_double (protect_risk_factor (Some t)))
                        in Inr part))))"

text \<open>The loop over the live opponents, \<open>tot\<close> being the running sum.\<close>

fun spread_loop ::
  "chart \<Rightarrow> move \<Rightarrow> pokemon option \<Rightarrow> pokemon list \<Rightarrow> real \<Rightarrow> exn + real" where
  "spread_loop ch m me [] tot = Inr tot"
| "spread_loop ch m me (t # ts) tot =
     (let e = eff ch (move_type m) (Some t)
      in if e = 0 then spread_loop ch m me ts tot
         else
           (case spread_part ch m me t e of
              Inl x \<Rightarrow> Inl x
            | Inr part \<Rightarrow> spread_loop ch m me ts (dadd tot part)))"

definition move_score_spread ::
  "chart \<Rightarrow> move option \<Rightarrow> pokemon option \<Rightarrow> pokemon option list \<Rightarrow> profile
     \<Rightarrow> pokemon option \<Rightarrow> exn + real" where
  "move_score_spread ch mv me opps mem ally =
     (case mv of
        None \<Rightarrow> Inr 0
      | Some m \<Rightarrow>
          (let mid = lower (or_empty (move_id m));
               lv = live_opps opps
           in case spread_loop ch m me lv 0 of
                Inl x \<Rightarrow> Inl x
              | Inr tot \<Rightarrow>
                  (let tot =
                         (if mid \<in> AOE_FRIENDLY_FIRE \<and> ally \<noteq> None \<and> length lv \<ge> 1
                          then (if \<not> ally_safe_for_aoe mid (move_type m) ally
                                then dmul tot (round_double 0.20) else tot)
                          else tot);
                       tot = dmul (dmul tot SPREAD_DAMAGE_MOD) (round_double 1.03)
                   in Inr tot)))"

section \<open>Slots\<close>

text \<open>\<^verbatim>\<open>p is me\<close>: the same object, or both \<^verbatim>\<open>None\<close>.\<close>

definition same_object :: "pokemon option \<Rightarrow> pokemon option \<Rightarrow> bool" where
  "same_object p me =
     (case p of
        None \<Rightarrow> (case me of None \<Rightarrow> True | Some _ \<Rightarrow> False)
      | Some a \<Rightarrow> (case me of None \<Rightarrow> False | Some b \<Rightarrow> ident a = ident b))"

fun first_is :: "pokemon option list \<Rightarrow> pokemon option \<Rightarrow> nat \<Rightarrow> nat" where
  "first_is [] me i = 0"
| "first_is (p # ps) me i = (if same_object p me then i else first_is ps me (Suc i))"

definition slot_index :: "battle \<Rightarrow> pokemon option \<Rightarrow> nat" where
  "slot_index b me = first_is (take 2 (active_pokemon b)) me 0"

definition moves_for_slot :: "battle \<Rightarrow> nat \<Rightarrow> move list" where
  "moves_for_slot b slot =
     (case available_moves b of
        PerSlot (l # ls) \<Rightarrow> (if slot < length (l # ls) then (l # ls) ! slot else [])
      | PerSlot [] \<Rightarrow>
          (case available_moves2 b of
             Some alt \<Rightarrow> (if slot = 0 then [] else alt)
           | None \<Rightarrow> [])
      | Flat mv \<Rightarrow>
          (case available_moves2 b of
             Some alt \<Rightarrow> (if slot = 0 then mv else alt)
           | None \<Rightarrow> mv))"

section \<open>Opponent profile memory\<close>

text \<open>\<^verbatim>\<open>getattr(battle, "opponent_username", None) or "_unknown_"\<close>.\<close>

definition opp_key :: "battle \<Rightarrow> string" where
  "opp_key b =
     (case opponent_username b of
        None \<Rightarrow> ''_unknown_''
      | Some u \<Rightarrow> if u = [] then ''_unknown_'' else u)"

definition get_series_mem :: "bot_state \<Rightarrow> battle \<Rightarrow> profile \<times> bot_state" where
  "get_series_mem st b =
     (let opp = opp_key b
      in case series_memory st opp of
           None \<Rightarrow>
             (let fresh = \<lparr>protect = False, speed_ctrl = False\<rparr>
              in (fresh, st\<lparr>series_memory := (series_memory st)(opp \<mapsto> fresh)\<rparr>))
         | Some p \<Rightarrow> (p, st))"

definition mon_ids :: "pokemon \<Rightarrow> string set" where
  "mon_ids mon = set (map (\<lambda>m. lower (or_empty (move_id m))) (moves mon))"

text \<open>The loop over the opponent's team, \<open>mem\<close> being the profile it writes.\<close>

fun scan_team :: "pokemon option list \<Rightarrow> profile \<Rightarrow> profile" where
  "scan_team [] mem = mem"
| "scan_team (None # ms) mem = scan_team ms mem"
| "scan_team (Some mon # ms) mem =
     (if moves mon = [] then scan_team ms mem
      else
        (let ids = mon_ids mon;
             mem = (if ids \<inter> PROTECT_IDS \<noteq> {} then mem\<lparr>protect := True\<rparr> else mem);
             mem = (if ids \<inter> SPEED_CTRL \<noteq> {} then mem\<lparr>speed_ctrl := True\<rparr> else mem)
         in scan_team ms mem))"

text \<open>
  The profile is the dictionary held in \<^verbatim>\<open>series_memory\<close> itself, so what the loop
  writes is what the memory holds afterwards.
\<close>

definition update_series_mem_from_battle :: "bot_state \<Rightarrow> battle \<Rightarrow> bot_state" where
  "update_series_mem_from_battle st b =
     (case get_series_mem st b of
        (mem, st') \<Rightarrow>
          st'\<lparr>series_memory := (series_memory st')(opp_key b \<mapsto> scan_team (opponent_team b) mem)\<rparr>)"

definition battle_finished_callback :: "bot_state \<Rightarrow> battle \<Rightarrow> bot_state" where
  "battle_finished_callback st b = update_series_mem_from_battle st b"

section \<open>Best move and target\<close>

text \<open>A candidate: score, move, target index (1 or 2; 0 for none) and reason.\<close>

type_synonym cand = "real \<times> move \<times> nat \<times> string"

text \<open>The first loop of \<^verbatim>\<open>_best_move_and_target\<close>: the spread moves.\<close>

fun spread_candidates ::
  "chart \<Rightarrow> move list \<Rightarrow> pokemon option \<Rightarrow> pokemon option list \<Rightarrow> profile
     \<Rightarrow> pokemon option \<Rightarrow> exn + cand list" where
  "spread_candidates ch [] me opps mem ally = Inr []"
| "spread_candidates ch (m # ms) me opps mem ally =
     (if is_spread m then
        (case move_score_spread ch (Some m) me opps mem ally of
           Inl x \<Rightarrow> Inl x
         | Inr s \<Rightarrow>
             (case spread_candidates ch ms me opps mem ally of
                Inl x \<Rightarrow> Inl x
              | Inr cs \<Rightarrow> Inr (if s > 0 then (s, m, 0, ''spread'') # cs else cs)))
      else spread_candidates ch ms me opps mem ally)"

text \<open>\<^verbatim>\<open>tmap\<close>: the first live opponent as target 1, the second as target 2.\<close>

definition tmap :: "pokemon list \<Rightarrow> (pokemon \<times> nat) list" where
  "tmap lv =
     (case lv of
        [] \<Rightarrow> []
      | a # rest \<Rightarrow> (a, 1) # (case rest of [] \<Rightarrow> [] | b # _ \<Rightarrow> [(b, 2)]))"

text \<open>
  The inner loop over the targets of one move. \<^verbatim>\<open>if prefer_slot and ps == prefer_slot\<close>
  holds for a preferred slot that is neither \<^verbatim>\<open>None\<close> nor 0.
\<close>

fun single_targets ::
  "chart \<Rightarrow> move \<Rightarrow> pokemon option \<Rightarrow> (pokemon \<times> nat) list \<Rightarrow> profile \<Rightarrow> nat option
     \<Rightarrow> exn + cand list" where
  "single_targets ch m me [] mem prefer_slot = Inr []"
| "single_targets ch m me ((tgt, ps) # rest) mem prefer_slot =
     (case move_score_vs_single ch (Some m) me (Some tgt) mem of
        Inl x \<Rightarrow> Inl x
      | Inr s0 \<Rightarrow>
          (let s = (if prefer_slot \<noteq> None \<and> prefer_slot \<noteq> Some 0 \<and> Some ps = prefer_slot
                    then s0 * 1.20 else s0)
           in case single_targets ch m me rest mem prefer_slot of
                Inl x \<Rightarrow> Inl x
              | Inr cs \<Rightarrow> Inr (if s > 0 then (s, m, ps, ''single'') # cs else cs)))"

text \<open>The second loop: the moves that are not spread moves.\<close>

fun single_candidates ::
  "chart \<Rightarrow> move list \<Rightarrow> pokemon option \<Rightarrow> (pokemon \<times> nat) list \<Rightarrow> profile \<Rightarrow> nat option
     \<Rightarrow> exn + cand list" where
  "single_candidates ch [] me tm mem prefer_slot = Inr []"
| "single_candidates ch (m # ms) me tm mem prefer_slot =
     (if \<not> is_spread m then
        (case single_targets ch m me tm mem prefer_slot of
           Inl x \<Rightarrow> Inl x
         | Inr cs \<Rightarrow>
             (case single_candidates ch ms me tm mem prefer_slot of
                Inl x \<Rightarrow> Inl x
              | Inr ds \<Rightarrow> Inr (cs @ ds)))
      else single_candidates ch ms me tm mem prefer_slot)"

text \<open>The list \<^verbatim>\<open>candidates\<close> once both loops have run.\<close>

definition build_candidates ::
  "chart \<Rightarrow> move list \<Rightarrow> pokemon option \<Rightarrow> pokemon option list \<Rightarrow> profile
     \<Rightarrow> pokemon option \<Rightarrow> nat option \<Rightarrow> exn + cand list" where
  "build_candidates ch my_moves me opps mem ally prefer_slot =
     (case spread_candidates ch my_moves me opps mem ally of
        Inl x \<Rightarrow> Inl x
      | Inr cs \<Rightarrow>
          (case single_candidates ch my_moves me (tmap (live_opps opps)) mem prefer_slot of
             Inl x \<Rightarrow> Inl x
           | Inr ds \<Rightarrow> Inr (cs @ ds)))"

text \<open>
  \<^verbatim>\<open>candidates.sort(key=lambda x: x[0], reverse=True)\<close> is a stable sort by falling
  score, as the stable \<open>sort_key\<close> is on the negated score.
\<close>

definition best_move_and_target ::
  "chart \<Rightarrow> battle \<Rightarrow> pokemon option \<Rightarrow> pokemon option list \<Rightarrow> profile \<Rightarrow> pokemon option
     \<Rightarrow> nat option \<Rightarrow> exn + (real \<times> move option \<times> nat \<times> string)" where
  "best_move_and_target ch b me opps mem ally prefer_slot =
     (let slot = slot_index b me;
          my_moves = moves_for_slot b slot
      in if me = None \<or> my_moves = [] then Inr (0, None, 0, ''no-moves'')
         else if live_opps opps = [] then Inr (0, None, 0, ''no-opps'')
         else
           (case build_candidates ch my_moves me opps mem ally prefer_slot of
              Inl x \<Rightarrow> Inl x
            | Inr candidates \<Rightarrow>
                if candidates = [] then Inr (0, None, 0, ''no-cands'')
                else
                  (case hd (sort_key (\<lambda>c. - fst c) candidates) of
                     (s, m, ps, why) \<Rightarrow> Inr (s, Some m, ps, why))))"

section \<open>The decision of a turn\<close>

text \<open>
  An order is what \<^verbatim>\<open>create_order(mv, move_target=tgt)\<close> and \<^verbatim>\<open>create_order(mv)\<close> of
  the battle client make. A decision is the double order, or what the client's chooser
  \<^verbatim>\<open>choose_random_doubles_move(battle)\<close> returns for the battle.
\<close>

datatype order = Order move "nat option"

datatype decision = DoubleBattleOrder order order | RandomDoublesMove battle

text \<open>
  What a call may raise: an exception of class \<^verbatim>\<open>Exception\<close>, which
  \<^verbatim>\<open>except Exception\<close> catches, or one that is a \<^verbatim>\<open>BaseException\<close> only, such as
  KeyboardInterrupt, which it lets pass.
\<close>

datatype raised = Exc exn | BaseExc string

text \<open>
  The two calls of \<^verbatim>\<open>choose_move\<close> that may raise in the client or in the interpreter:
  the chooser \<^verbatim>\<open>choose_random_doubles_move(battle)\<close>, with what it raises for a battle if it
  raises, and the \<^verbatim>\<open>print\<close> of the handler, with what it raises for the exception it
  prints if it raises.
\<close>

record client =
  chooser_raises :: "battle \<Rightarrow> raised option"
  print_raises :: "exn \<Rightarrow> raised option"

definition VERBOSE :: bool where
  "VERBOSE = True"

text \<open>\<^verbatim>\<open>self.choose_random_doubles_move(battle)\<close>.\<close>

definition choose_random_doubles_move :: "client \<Rightarrow> battle \<Rightarrow> raised + decision" where
  "choose_random_doubles_move cl b =
     (case chooser_raises cl b of
        Some r \<Rightarrow> Inl r
      | None \<Rightarrow> Inr (RandomDoublesMove b))"

text \<open>\<^verbatim>\<open>[p for p in xs if p]\<close>.\<close>

fun present :: "pokemon option list \<Rightarrow> pokemon list" where
  "present [] = []"
| "present (None # ps) = present ps"
| "present (Some p # ps) = p # present ps"

text \<open>The two \<^verbatim>\<open>next(...)\<close> searches of a slot that has no scored move.\<close>

definition fallback_move :: "battle \<Rightarrow> nat \<Rightarrow> move option" where
  "fallback_move b slot =
     (let slot_moves = moves_for_slot b slot
      in case find (\<lambda>m. base_power_or0 m > 0 \<and> \<not> is_spread m) slot_moves of
           Some mv \<Rightarrow> Some mv
         | None \<Rightarrow> find (\<lambda>m. base_power_or0 m > 0) slot_moves)"

text \<open>
  The order of one slot from the result of \<^verbatim>\<open>_best_move_and_target\<close>;
  \<open>None\<close> where the function returns the random decision for the turn.
\<close>

definition slot_order :: "battle \<Rightarrow> nat \<Rightarrow> real \<times> move option \<times> nat \<times> string \<Rightarrow> order option" where
  "slot_order b slot best =
     (case best of
        (s, mvo, tgt, why) \<Rightarrow>
          (case mvo of
             Some mv \<Rightarrow>
               (if requires_explicit_target mv \<and> tgt \<in> {1, 2}
                then Some (Order mv (Some tgt))
                else Some (Order mv None))
           | None \<Rightarrow>
               (case fallback_move b slot of
                  Some mv \<Rightarrow> Some (Order mv None)
                | None \<Rightarrow> None)))"

text \<open>Slot 0 records its target in \<^verbatim>\<open>_prefer_target_slot\<close> when the order names one.\<close>

definition note_target :: "bot_state \<Rightarrow> real \<times> move option \<times> nat \<times> string \<Rightarrow> bot_state" where
  "note_target st best =
     (case best of
        (s, mvo, tgt, why) \<Rightarrow>
          (case mvo of
             Some mv \<Rightarrow>
               (if requires_explicit_target mv \<and> tgt \<in> {1, 2}
                then st\<lparr>prefer_target_slot := Some tgt\<rparr>
                else st)
           | None \<Rightarrow> st))"

text \<open>
  The body of the \<^verbatim>\<open>try\<close> block of \<^verbatim>\<open>choose_move\<close>: what it returns or raises, and
  the state it leaves. What the scoring raises is of class \<^verbatim>\<open>Exception\<close>; the chooser,
  called where the body gives the turn up, may raise anything.
\<close>

definition choose_move_try ::
  "client \<Rightarrow> chart \<Rightarrow> bot_state \<Rightarrow> battle \<Rightarrow> (raised + decision) \<times> bot_state" where
  "choose_move_try cl ch st b =
     (case get_series_mem st b of
        (mem, st1) \<Rightarrow>
          (let st2 = st1\<lparr>prefer_target_slot := None\<rparr>;
               me_list = present (active_pokemon b);
               opp_list = map Some (present (opponent_active_pokemon b))
           in case me_list of
                [] \<Rightarrow> (choose_random_doubles_move cl b, st2)
              | me0 # others \<Rightarrow>
                  (let ally1 = (case others of [] \<Rightarrow> None | a # _ \<Rightarrow> Some a)
                   in case best_move_and_target ch b (Some me0) opp_list mem ally1 None of
                        Inl x \<Rightarrow> (Inl (Exc x), st2)
                      | Inr best0 \<Rightarrow>
                          (case slot_order b 0 best0 of
                             None \<Rightarrow> (choose_random_doubles_move cl b, st2)
                           | Some o0 \<Rightarrow>
                               (let st3 = note_target st2 best0
                                in case others of
                                     [] \<Rightarrow> (choose_random_doubles_move cl b, st3)
                                   | me1 # _ \<Rightarrow>
                                       (case best_move_and_target ch b (Some me1) opp_list mem
                                               (Some me0) (prefer_target_slot st3) of
                                          Inl x \<Rightarrow> (Inl (Exc x), st3)
                                        | Inr best1 \<Rightarrow>
                                            (case slot_order b 1 best1 of
                                               None \<Rightarrow> (choose_random_doubles_move cl b, st3)
                                             | Some o1 \<Rightarrow>
                                                 (Inr (DoubleBattleOrder o0 o1), st3))))))))"

text \<open>
  The handler \<^verbatim>\<open>except Exception as e\<close>: it prints \<open>e\<close> when \<^verbatim>\<open>VERBOSE\<close> is set and
  returns what the chooser returns. Neither call is inside a \<^verbatim>\<open>try\<close>, so what either
  raises reaches the caller, as does what the body raises outside the class
  \<^verbatim>\<open>Exception\<close>.
\<close>

definition handler :: "client \<Rightarrow> battle \<Rightarrow> exn \<Rightarrow> raised + decision" where
  "handler cl b e =
     (case (if VERBOSE then print_raises cl e else None) of
        Some r \<Rightarrow> Inl r
      | None \<Rightarrow> choose_random_doubles_move cl b)"

definition choose_move ::
  "client \<Rightarrow> chart \<Rightarrow> bot_state \<Rightarrow> battle \<Rightarrow> (raised + decision) \<times> bot_state" where
  "choose_move cl ch st b =
     (case choose_move_try cl ch st b of
        (Inr d, st') \<Rightarrow> (Inr d, st')
      | (Inl (BaseExc x), st') \<Rightarrow> (Inl (BaseExc x), st')
      | (Inl (Exc e), st') \<Rightarrow> (handler cl b e, st'))"

text \<open>The life of the player: turns to decide and battles that end.\<close>

datatype event = ChooseMove battle | BattleFinished battle

fun run :: "client \<Rightarrow> chart \<Rightarrow> bot_state \<Rightarrow> event list \<Rightarrow> bot_state" where
  "run cl ch st [] = st"
| "run cl ch st (ChooseMove b # evs) = run cl ch (snd (choose_move cl ch st b)) evs"
| "run cl ch st (BattleFinished b # evs) = run cl ch (battle_finished_callback st b) evs"

section \<open>The specification's words\<close>

text \<open>
  The scoring terms as the specification words them, each written from its sentence and
  not from the functions above, with the double arithmetic of section Doubles.
\<close>












section \<open>Concrete battles\<close>

text \<open>
  A small type chart: Ground does nothing to Flying and double damage to Fire; every other
  pairing is neutral.
\<close>

definition ex_chart :: chart where
  "ex_chart a ds =
     (if a = ''Ground'' \<and> ''Flying'' \<in> set ds then 0
      else if a = ''Ground'' \<and> ''Fire'' \<in> set ds then 2
      else 1)"

definition ex_mon :: pokemon where
  "ex_mon = \<lparr>ident = 0, current_hp_fraction = Some 1, status = None, boosts = Map.empty,
     types = [''Normal''], ability = None, item = None, fainted = False, last_move = None,
     moves = []\<rparr>"

text \<open>The same combatant after two drops of its attack stage.\<close>

definition ex_lowered :: pokemon where
  "ex_lowered = ex_mon\<lparr>ident := 1, boosts := [''atk'' \<mapsto> - 2]\<rparr>"

text \<open>Two opponents: one weak to Ground, one immune to it.\<close>

definition ex_opp_fire :: pokemon where
  "ex_opp_fire = ex_mon\<lparr>ident := 10, types := [''Fire'']\<rparr>"

definition ex_opp_bird :: pokemon where
  "ex_opp_bird = ex_mon\<lparr>ident := 11, types := [''Flying'']\<rparr>"

definition ex_swordsdance :: move where
  "ex_swordsdance = \<lparr>move_id = Some ''swordsdance'', move_type = Some ''Normal'',
     base_power = Some 0, accuracy = None, category = ''Status'', target = TargetStr ''self'',
     recharge = False\<rparr>"

definition ex_stealthrock :: move where
  "ex_stealthrock = \<lparr>move_id = Some ''stealthrock'', move_type = Some ''Rock'',
     base_power = Some 0, accuracy = None, category = ''Status'', target = TargetStr ''foeSide'',
     recharge = False\<rparr>"

definition ex_beatup :: move where
  "ex_beatup = \<lparr>move_id = Some ''beatup'', move_type = Some ''Dark'',
     base_power = Some 10, accuracy = Some 1, category = ''Physical'', target = TargetStr ''any'',
     recharge = False\<rparr>"

definition ex_earthquake :: move where
  "ex_earthquake = \<lparr>move_id = Some ''earthquake'', move_type = Some ''Ground'',
     base_power = Some 100, accuracy = Some 1, category = ''Physical'',
     target = TargetStr ''allAdjacent'', recharge = False\<rparr>"

definition ex_drillrun :: move where
  "ex_drillrun = \<lparr>move_id = Some ''drillrun'', move_type = Some ''Ground'',
     base_power = Some 80, accuracy = Some 0.95, category = ''Physical'',
     target = TargetStr ''normal'', recharge = False\<rparr>"


definition ex_protect :: move where
  "ex_protect = \<lparr>move_id = Some ''protect'', move_type = Some ''Normal'',
     base_power = Some 0, accuracy = None, category = ''Status'', target = TargetStr ''self'',
     recharge = False\<rparr>"





text \<open>A client whose calls return, and one whose chooser raises for every battle.\<close>

definition ex_client :: client where
  "ex_client = \<lparr>chooser_raises = (\<lambda>b. None), print_raises = (\<lambda>e. None)\<rparr>"


definition ex_mem :: profile where
  "ex_mem = \<lparr>protect = False, speed_ctrl = False\<rparr>"

definition ex_state :: bot_state where
  "ex_state = \<lparr>series_memory = Map.empty, prefer_target_slot = None\<rparr>"

text \<open>A memory in which the opponent rival has shown a protection move.\<close>

definition ex_state_seen :: bot_state where
  "ex_state_seen = \<lparr>series_memory = [''rival'' \<mapsto> \<lparr>protect = True, speed_ctrl = False\<rparr>],
     prefer_target_slot = None\<rparr>"

definition ex_tailwind :: move where
  "ex_tailwind = \<lparr>move_id = Some ''tailwind'', move_type = Some ''Flying'',
     base_power = Some 0, accuracy = None, category = ''Status'',
     target = TargetStr ''allySide'', recharge = False\<rparr>"

text \<open>An earthquake whose base power is \<^verbatim>\<open>None\<close>.\<close>

definition ex_broken_quake :: move where
  "ex_broken_quake = ex_earthquake\<lparr>base_power := None\<rparr>"

text \<open>
  A turn against rival: slot 0 may only use the earthquake with no base power, slot 1 only
  swordsdance.
\<close>

definition ex_battle_broken :: battle where
  "ex_battle_broken = \<lparr>opponent_username = Some ''rival'',
     active_pokemon = [Some ex_mon, Some ex_lowered],
     opponent_active_pokemon = [Some ex_opp_fire, Some ex_opp_bird],
     available_moves = PerSlot [[ex_broken_quake], [ex_swordsdance]],
     available_moves2 = None,
     opponent_team = [Some ex_opp_fire, Some ex_opp_bird],
     turn = 1\<rparr>"

text \<open>A battle against rival that ends with a tailwind seen on the opponent's team.\<close>

definition ex_battle_tailwind :: battle where
  "ex_battle_tailwind = ex_battle_broken\<lparr>
     opponent_team := [None, Some (ex_opp_bird\<lparr>moves := [ex_tailwind]\<rparr>)]\<rparr>"

text \<open>
  Two battles against opponents of unknown identity: in the first the name is absent and
  a protect is seen on the team, in the second the name is the empty string.
\<close>

definition ex_battle_anon1 :: battle where
  "ex_battle_anon1 = ex_battle_broken\<lparr>opponent_username := None,
     opponent_team := [Some (ex_opp_fire\<lparr>moves := [ex_protect]\<rparr>)]\<rparr>"

definition ex_battle_anon2 :: battle where
  "ex_battle_anon2 = ex_battle_broken\<lparr>opponent_username := Some [],
     opponent_team := []\<rparr>"

section \<open>Rounding\<close>

lemmas double_eval = round_double_def round_pos_def expo.simps rhe_def dmul_def dadd_def

lemma rhe_nonneg: "0 \<le> y \<Longrightarrow> 0 \<le> rhe y"
proof -
  assume "0 \<le> y"
  then have "0 \<le> \<lfloor>y\<rfloor>" by simp
  then show ?thesis by (simp add: rhe_def Let_def)
qed

lemma rhe_pos_iff: "0 \<le> y \<Longrightarrow> 0 < rhe y \<longleftrightarrow> 1 / 2 < y"
proof (cases "y < 1")
  case True
  assume "0 \<le> y"
  with True have "\<lfloor>y\<rfloor> = 0" by (simp add: floor_eq_iff)
  then show ?thesis by (simp add: rhe_def Let_def)
next
  case False
  then have "1 \<le> \<lfloor>y\<rfloor>" by simp
  then have "0 < rhe y" by (simp add: rhe_def Let_def)
  with False show ?thesis by simp
qed

lemma expo_bounds: "0 < x \<Longrightarrow> 2 powi (expo x) \<le> x \<and> x < 2 powi (expo x + 1)"
proof (induction x rule: expo.induct)
  case (1 x)
  consider "2 \<le> x" | "1 \<le> x" "x < 2" | "1 / 2 \<le> x" "x < 1" | "x < 1 / 2"
    by linarith
  then show ?case
  proof cases
    case 1
    with "1.prems" "1.IH"(1) have ih: "2 powi (expo (x / 2)) \<le> x / 2"
      "x / 2 < 2 powi (expo (x / 2) + 1)" by simp_all
    from 1 have e: "expo x = expo (x / 2) + 1" by (simp add: expo.simps [of x])
    from ih show ?thesis unfolding e by (simp add: power_int_add field_simps)
  next
    case 2
    then have "expo x = 0" by (simp add: expo.simps [of x])
    with 2 show ?thesis by simp
  next
    case 3
    then have "expo x = - 1" by (simp add: expo.simps [of x])
    with 3 show ?thesis by (simp add: power_int_minus)
  next
    case 4
    with "1.prems" "1.IH"(2) have ih: "2 powi (expo (2 * x)) \<le> 2 * x"
      "2 * x < 2 powi (expo (2 * x) + 1)" by simp_all
    from 4 "1.prems" have e: "expo x = expo (2 * x) - 1" by (simp add: expo.simps [of x])
    from ih show ?thesis unfolding e by (simp add: power_int_diff power_int_add field_simps)
  qed
qed

lemma round_pos_nonneg: "0 \<le> x \<Longrightarrow> 0 \<le> round_pos x"
proof -
  assume x: "0 \<le> x"
  have a: "0 \<le> rhe (x * 2 ^ 1074)" using x by (intro rhe_nonneg) simp
  have b: "0 \<le> rhe (x * 2 powi (52 - expo x))" using x by (intro rhe_nonneg) simp
  from a b show ?thesis by (simp add: round_pos_def Let_def)
qed

lemma round_pos_pos_iff:
  assumes "0 \<le> x"
  shows "0 < round_pos x \<longleftrightarrow> 2 powi (- 1075) < x"
proof (cases "x < 2 powi (- 1022)")
  case True
  have "0 < rhe (x * 2 ^ 1074) \<longleftrightarrow> 1 / 2 < x * 2 ^ 1074"
    using assms by (intro rhe_pos_iff) simp
  also have "\<dots> \<longleftrightarrow> 2 powi (- 1075) < x"
  proof -
    have "(2::real) powi (- 1075) = 1 / 2 / 2 ^ 1074"
      by (simp add: power_int_minus field_simps)
    then show ?thesis by (simp add: field_simps)
  qed
  finally have "0 < rhe (x * 2 ^ 1074) \<longleftrightarrow> 2 powi (- 1075) < x" .
  moreover have "(0::real) < 2 powi (- 1074)" by simp
  ultimately show ?thesis using True
    by (simp add: round_pos_def zero_less_mult_iff)
next
  case False
  have lt: "(2::real) powi (- 1075) < 2 powi (- 1022)"
    by (intro power_int_strict_increasing) simp_all
  with False have big: "2 powi (- 1075) < x" by simp
  then have "0 < x" using zero_less_power_int [of "2::real" "- 1075"] by linarith
  from expo_bounds [OF this] have "2 powi (expo x) \<le> x" by simp
  then have "2 powi (expo x) * 2 powi (52 - expo x) \<le> x * 2 powi (52 - expo x)"
    by (intro mult_right_mono) simp_all
  moreover have "(2::real) powi (expo x) * 2 powi (52 - expo x) = 2 ^ 52"
    by (simp add: power_int_add [symmetric])
  ultimately have "1 / 2 < x * 2 powi (52 - expo x)" by simp
  moreover from \<open>0 < x\<close> have "0 \<le> x * 2 powi (52 - expo x)" by simp
  ultimately have "0 < rhe (x * 2 powi (52 - expo x))" by (simp add: rhe_pos_iff)
  with False big show ?thesis
    by (simp add: round_pos_def Let_def zero_less_mult_iff)
qed

lemma round_double_pos_iff: "0 \<le> x \<Longrightarrow> 0 < round_double x \<longleftrightarrow> 2 powi (- 1075) < x"
  by (simp add: round_double_def round_pos_pos_iff)

lemma round_double_nonneg: "0 \<le> x \<Longrightarrow> 0 \<le> round_double x"
  by (simp add: round_double_def round_pos_nonneg)



section \<open>Stat stages\<close>

lemma stage_mod_quotient:
  "stage_mod stage =
     (let q = (if stage \<ge> 0 then (2 + real_of_int stage) / 2 else 2 / (2 - real_of_int stage))
      in if overflows q then Inl OverflowError else Inr (round_double q))"
  by (simp add: stage_mod_def truediv_def Let_def max_def)

lemma quotient_up_overflows:
  assumes "0 \<le> stage"
  shows "overflows ((2 + real_of_int stage) / 2) \<longleftrightarrow> stage \<ge> 2 ^ 1025 - 2 ^ 971 - 2"
proof -
  from assms have "\<bar>(2 + real_of_int stage) / 2\<bar> = (2 + real_of_int stage) / 2" by simp
  then have "overflows ((2 + real_of_int stage) / 2)
      \<longleftrightarrow> real_of_int (2 ^ 1025 - 2 ^ 971 - 2) \<le> real_of_int stage"
    by (simp add: overflows_def field_simps)
  then show ?thesis by (simp only: of_int_le_iff)
qed

lemma quotient_down_small:
  assumes "stage < 0"
  shows "0 < 2 / (2 - real_of_int stage)" and "\<not> overflows (2 / (2 - real_of_int stage))"
    and "2 powi (- 1075) < 2 / (2 - real_of_int stage) \<longleftrightarrow> stage > 2 - 2 ^ 1076"
proof -
  from assms have d: "2 < 2 - real_of_int stage" by simp
  then show pos: "0 < 2 / (2 - real_of_int stage)" by simp
  from d have lt: "2 / (2 - real_of_int stage) < 1" by simp
  have "(1::real) \<le> 2 ^ 1024 - 2 ^ 970" by simp
  with lt pos have "\<bar>2 / (2 - real_of_int stage)\<bar> < 2 ^ 1024 - 2 ^ 970" by linarith
  then show "\<not> overflows (2 / (2 - real_of_int stage))"
    unfolding overflows_def by (simp only: not_le)
  have "(2::real) powi (- 1075) = 2 / 2 ^ 1076" by (simp add: power_int_minus field_simps)
  then have "2 powi (- 1075) < 2 / (2 - real_of_int stage)
      \<longleftrightarrow> 2 - real_of_int stage < 2 ^ 1076"
    using d by (simp add: field_simps)
  also have "\<dots> \<longleftrightarrow> real_of_int (2 - 2 ^ 1076) < real_of_int stage"
  proof -
    have "real_of_int (2 - 2 ^ 1076) = 2 - 2 ^ 1076" by simp
    then show ?thesis by linarith
  qed
  also have "\<dots> \<longleftrightarrow> 2 - 2 ^ 1076 < stage" by (simp only: of_int_less_iff)
  finally show "2 powi (- 1075) < 2 / (2 - real_of_int stage) \<longleftrightarrow> stage > 2 - 2 ^ 1076" .
qed

text \<open>
  Claim C10, as the code has it. On every integer stage the divisor of the stage multiplier
  is not zero: it is 2 for a stage that is not negative and \<open>2 - stage\<close>, at least 3, for
  a negative one, so no ZeroDivisionError is raised. The multiplier raises an OverflowError
  exactly from the stage \<open>2 ^ 1025 - 2 ^ 971 - 2\<close> on. Below that stage it returns a value
  that is not negative, and the value is above 0 exactly for the stages above
  \<open>2 - 2 ^ 1076\<close>.
\<close>

theorem stage_mod_range:
  "(if stage \<ge> 0 then 2 else 2 - stage) \<noteq> 0
   \<and> (stage < 0 \<longrightarrow> 2 - stage \<ge> 3)
   \<and> stage_mod stage \<noteq> Inl ZeroDivisionError
   \<and> (stage_mod stage = Inl OverflowError \<longleftrightarrow> stage \<ge> 2 ^ 1025 - 2 ^ 971 - 2)
   \<and> (stage < 2 ^ 1025 - 2 ^ 971 - 2 \<longrightarrow>
        (\<exists>v. stage_mod stage = Inr v \<and> 0 \<le> v \<and> (0 < v \<longleftrightarrow> stage > 2 - 2 ^ 1076)))"
proof (cases "0 \<le> stage")
  case True
  let ?q = "(2 + real_of_int stage) / 2"
  from True have q: "1 \<le> ?q" by simp
  have "(2::real) powi (- 1075) < 1" by (simp add: power_int_minus field_simps)
  with q have "2 powi (- 1075) < ?q" by linarith
  with q have pos: "0 < round_double ?q" by (simp add: round_double_pos_iff)
  have "(2::int) - 2 ^ 1076 < 0" by simp
  with True have above: "stage > 2 - 2 ^ 1076" by linarith
  from True pos above quotient_up_overflows [OF True] show ?thesis
    by (simp add: stage_mod_quotient Let_def)
next
  case False
  then have neg: "stage < 0" by simp
  let ?q = "2 / (2 - real_of_int stage)"
  note small = quotient_down_small [OF neg]
  have "(0::int) < 2 ^ 1025 - 2 ^ 971 - 2" by simp
  with neg have below: "stage < 2 ^ 1025 - 2 ^ 971 - 2" by linarith
  from small(1) have "0 \<le> round_double ?q" "0 < round_double ?q \<longleftrightarrow> 2 powi (- 1075) < ?q"
    by (simp_all add: round_double_nonneg round_double_pos_iff)
  with neg below small show ?thesis
    by (simp add: stage_mod_quotient Let_def)
qed

theorem stage_mod_range_witness:
  "(- 6 :: int) < 0 \<and> 2 - (- 6 :: int) \<ge> 3
   \<and> (- 6 :: int) < 2 ^ 1025 - 2 ^ 971 - 2 \<and> (- 6 :: int) > 2 - 2 ^ 1076
   \<and> stage_mod (- 6) = Inr (1 / 4) \<and> stage_mod 6 = Inr 4 \<and> stage_mod 0 = Inr 1"
proof -
  have v: "stage_mod (- 6) = Inr (1 / 4)" "stage_mod 6 = Inr 4" "stage_mod 0 = Inr 1"
    by (simp_all add: stage_mod_quotient overflows_def round_double_def round_pos_def
        expo.simps rhe_def)
  from stage_mod_range [of "- 6"] v show ?thesis by simp
qed

text \<open>
  Claim C10 as stated fails: at stage \<open>10 ^ 309\<close> the division raises an OverflowError,
  and at stage \<open>- (10 ^ 400)\<close> the quotient rounds to 0.0.
\<close>

theorem stage_mod_every_integer_counterexample:
  "stage_mod (10 ^ 309) = Inl OverflowError \<and> stage_mod (- (10 ^ 400)) = Inr 0"
  by (simp add: stage_mod_quotient overflows_def round_double_def round_pos_def rhe_def)

section \<open>Setup moves\<close>

lemma setup_ids_cases:
  "utility_score ''swordsdance'' me mem = 26 + 1.5 * real_of_int (max 0 (- boost me ''atk''))"
  "utility_score ''bulkup'' me mem = 26 + 1.5 * real_of_int (max 0 (- boost me ''atk''))"
  "utility_score ''nastyplot'' me mem = 26 + 1.5 * real_of_int (max 0 (- boost me ''spa''))"
  "utility_score ''calmmind'' me mem = 26 + 1.5 * real_of_int (max 0 (- boost me ''spa''))"
  "utility_score ''quiverdance'' me mem = 26 + 1.5 * real_of_int (max 0 (- boost me ''spa''))"
  by (simp_all add: utility_score_def any_in_def SETUP_IDS_def sublist_code)



lemma ex_swordsdance_facts:
  "base_power ex_swordsdance = Some 0"
  "lower (or_empty (move_id ex_swordsdance)) = ''swordsdance''"
  by (simp_all add: ex_swordsdance_def or_empty_def lower_def lower_char_def)



section \<open>Spread classification\<close>

text \<open>
  Claim C2, as the code has it. A move is a spread move exactly when its identifier is in
  the known-spread set or its normalised target is one of alladjacentfoes, alladjacent,
  all and foes. A move whose normalised target is foeside and whose identifier is not in
  the known-spread set is not a spread move.
\<close>

theorem is_spread_iff:
  "(is_spread m \<longleftrightarrow>
      lower (or_empty (move_id m)) \<in> SPREAD_HINTS
      \<or> target_str m \<in> {''alladjacentfoes'', ''alladjacent'', ''all'', ''foes''})
   \<and> (target_str m = ''foeside'' \<and> lower (or_empty (move_id m)) \<notin> SPREAD_HINTS
        \<longrightarrow> \<not> is_spread m)"
  by (simp add: is_spread_def Let_def)

lemma ex_stealthrock_facts:
  "target_str ex_stealthrock = ''foeside''"
  "lower (or_empty (move_id ex_stealthrock)) = ''stealthrock''"
  by (simp_all add: target_str_def ex_stealthrock_def or_empty_def lower_def lower_char_def)

lemma stealthrock_no_hint: "''stealthrock'' \<notin> SPREAD_HINTS"
  by (simp add: SPREAD_HINTS_def)

theorem is_spread_iff_witness:
  "target_str ex_stealthrock = ''foeside''
   \<and> lower (or_empty (move_id ex_stealthrock)) \<notin> SPREAD_HINTS
   \<and> target_str ex_stealthrock \<notin> {''alladjacentfoes'', ''alladjacent'', ''all'', ''foes''}
   \<and> \<not> is_spread ex_stealthrock"
  using is_spread_iff [of ex_stealthrock]
  by (simp add: ex_stealthrock_facts stealthrock_no_hint)

text \<open>
  Claim C2 as stated fails: stealthrock targets the foe's side, its identifier is not in
  the known-spread set, and the classifier returns false.
\<close>

theorem foeside_not_spread_counterexample:
  "target_str ex_stealthrock = ''foeside''
   \<and> lower (or_empty (move_id ex_stealthrock)) \<notin> SPREAD_HINTS
   \<and> \<not> is_spread ex_stealthrock"
  by (simp add: is_spread_def ex_stealthrock_facts stealthrock_no_hint)

section \<open>Moves that could strike the ally\<close>

text \<open>
  Claim C7. A damaging move (base power above 0) whose normalised target is adjacentally,
  ally or any, and whose identifier is in the unsafe-on-ally set, scores 0 against every
  target, whatever the chart, the acting combatant, the target and the profile.
\<close>

theorem unsafe_on_ally_zero:
  assumes "base_power_or0 m > 0"
    and "target_str m \<in> {''adjacentally'', ''ally'', ''any''}"
    and "lower (or_empty (move_id m)) \<in> HARMFUL_ALLY_SINGLES"
  shows "move_score_vs_single ch (Some m) me tgt mem = Inr 0"
  using assms by (simp add: move_score_vs_single_def Let_def)

lemma ex_beatup_facts:
  "base_power_or0 ex_beatup = 10"
  "target_str ex_beatup = ''any''"
  "lower (or_empty (move_id ex_beatup)) = ''beatup''"
  by (simp_all add: base_power_or0_def target_str_def ex_beatup_def or_empty_def lower_def
      lower_char_def)

theorem unsafe_on_ally_zero_witness:
  "base_power_or0 ex_beatup > 0
   \<and> target_str ex_beatup \<in> {''adjacentally'', ''ally'', ''any''}
   \<and> lower (or_empty (move_id ex_beatup)) \<in> HARMFUL_ALLY_SINGLES
   \<and> move_score_vs_single ex_chart (Some ex_beatup) (Some ex_mon) (Some ex_lowered) ex_mem = Inr 0"
  using unsafe_on_ally_zero [of ex_beatup ex_chart "Some ex_mon" "Some ex_lowered" ex_mem]
  by (simp add: ex_beatup_facts HARMFUL_ALLY_SINGLES_def)

section \<open>The spread score\<close>

















lemma ex_mon_fields:
  "types ex_mon = [''Normal'']" "boosts ex_mon = Map.empty" "status ex_mon = None"
  by (simp_all add: ex_mon_def)




















section \<open>Candidates\<close>

lemma immune_score_zero:
  assumes "base_power_or0 m > 0" and "eff ch (move_type m) tgt = 0"
  shows "move_score_vs_single ch (Some m) me tgt mem = Inr 0"
  using assms
  by (simp add: move_score_vs_single_def base_power_or0_def attack_score_def Let_def
      split: option.splits)

lemma single_targets_sound:
  assumes "single_targets ch m me tm mem prefer_slot = Inr cs"
    and "(s, m', ps, why) \<in> set cs"
  shows "0 < s \<and> m' = m
     \<and> (\<exists>tgt s0. (tgt, ps) \<in> set tm
           \<and> move_score_vs_single ch (Some m) me (Some tgt) mem = Inr s0 \<and> s0 \<noteq> 0)"
  using assms
proof (induction tm arbitrary: cs)
  case Nil
  then show ?case by simp
next
  case (Cons p rest)
  obtain tgt0 ps0 where p: "p = (tgt0, ps0)" by (cases p)
  from Cons.prems(1) p obtain s0 cs' where
    s0: "move_score_vs_single ch (Some m) me (Some tgt0) mem = Inr s0"
    and rest: "single_targets ch m me rest mem prefer_slot = Inr cs'"
    by (auto simp: Let_def split: sum.splits)
  define s1 where "s1 = (if prefer_slot \<noteq> None \<and> prefer_slot \<noteq> Some 0 \<and> Some ps0 = prefer_slot
                    then s0 * 1.20 else s0)"
  from Cons.prems(1) p s0 rest
  have cs: "cs = (if s1 > 0 then (s1, m, ps0, ''single'') # cs' else cs')"
    unfolding s1_def by (simp add: Let_def del: not_None_eq)
  show ?case
  proof (cases "(s, m', ps, why) \<in> set cs'")
    case True
    from Cons.IH [OF rest True] show ?thesis by auto
  next
    case False
    with Cons.prems(2) cs have hd: "s1 > 0" "s = s1" "m' = m" "ps = ps0"
      by (auto split: if_splits)
    from hd(1) have "s0 \<noteq> 0" by (auto simp: s1_def split: if_splits)
    with hd s0 p show ?thesis by auto
  qed
qed

lemma single_candidates_sound:
  assumes "single_candidates ch ms me tm mem prefer_slot = Inr cs"
    and "(s, m, ps, why) \<in> set cs"
  shows "0 < s
     \<and> (\<exists>tgt s0. (tgt, ps) \<in> set tm
           \<and> move_score_vs_single ch (Some m) me (Some tgt) mem = Inr s0 \<and> s0 \<noteq> 0)"
  using assms
proof (induction ms arbitrary: cs)
  case Nil
  then show ?case by simp
next
  case (Cons m0 ms)
  show ?case
  proof (cases "is_spread m0")
    case True
    with Cons.prems(1) have "single_candidates ch ms me tm mem prefer_slot = Inr cs" by simp
    from Cons.IH [OF this Cons.prems(2)] show ?thesis .
  next
    case False
    with Cons.prems(1) obtain c1 c2 where
      c1: "single_targets ch m0 me tm mem prefer_slot = Inr c1"
      and c2: "single_candidates ch ms me tm mem prefer_slot = Inr c2"
      and cs: "cs = c1 @ c2"
      by (auto split: sum.splits)
    from Cons.prems(2) cs consider "(s, m, ps, why) \<in> set c1" | "(s, m, ps, why) \<in> set c2"
      by auto
    then show ?thesis
    proof cases
      case 1
      from single_targets_sound [OF c1 1] show ?thesis by auto
    next
      case 2
      from Cons.IH [OF c2 2] show ?thesis .
    qed
  qed
qed

lemma spread_candidates_sound:
  assumes "spread_candidates ch ms me opps mem ally = Inr cs"
    and "(s, m, ps, why) \<in> set cs"
  shows "0 < s \<and> ps = 0"
  using assms
proof (induction ms arbitrary: cs)
  case Nil
  then show ?case by simp
next
  case (Cons m0 ms)
  show ?case
  proof (cases "is_spread m0")
    case False
    with Cons.prems(1) have "spread_candidates ch ms me opps mem ally = Inr cs" by simp
    from Cons.IH [OF this Cons.prems(2)] show ?thesis .
  next
    case True
    with Cons.prems(1) obtain s0 cs' where
      rest: "spread_candidates ch ms me opps mem ally = Inr cs'"
      and cs: "cs = (if s0 > 0 then (s0, m0, 0, ''spread'') # cs' else cs')"
      by (auto split: sum.splits)
    show ?thesis
    proof (cases "(s, m, ps, why) \<in> set cs'")
      case True
      from Cons.IH [OF rest True] show ?thesis .
    next
      case False
      with Cons.prems(2) cs show ?thesis by (auto split: if_splits)
    qed
  qed
qed

lemma tmap_slot:
  assumes "(t1, ps) \<in> set (tmap lv)" and "(t2, ps) \<in> set (tmap lv)"
  shows "t1 = t2 \<and> 0 < ps"
  using assms by (auto simp: tmap_def split: list.splits)

text \<open>
  Claim C6. The single-target score of a damaging move against a target on which its
  effectiveness is 0 is 0. Where the two loops of \<^verbatim>\<open>_best_move_and_target\<close> build the
  candidate list, no candidate pairs a damaging move with the index of a target on which
  its effectiveness is 0, and every candidate has a score above 0.
\<close>

theorem candidates_positive_no_immune:
  assumes "build_candidates ch my_moves me opps mem ally prefer_slot = Inr cands"
  shows "(\<forall>m me' tgt mem'. base_power_or0 m > 0 \<and> eff ch (move_type m) tgt = 0
          \<longrightarrow> move_score_vs_single ch (Some m) me' tgt mem' = Inr 0)
     \<and> (\<forall>m tgt ps. base_power_or0 m > 0 \<and> (tgt, ps) \<in> set (tmap (live_opps opps))
            \<and> eff ch (move_type m) (Some tgt) = 0
          \<longrightarrow> (\<forall>s why. (s, m, ps, why) \<notin> set cands))
     \<and> (\<forall>c\<in>set cands. 0 < fst c)"
proof -
  from assms obtain c1 c2 where
    c1: "spread_candidates ch my_moves me opps mem ally = Inr c1"
    and c2: "single_candidates ch my_moves me (tmap (live_opps opps)) mem prefer_slot = Inr c2"
    and cands: "cands = c1 @ c2"
    by (auto simp: build_candidates_def split: sum.splits)
  have pos: "0 < fst c" if "c \<in> set cands" for c
  proof -
    obtain s m ps why where c: "c = (s, m, ps, why)" by (cases c)
    from that cands c consider "(s, m, ps, why) \<in> set c1" | "(s, m, ps, why) \<in> set c2"
      by auto
    then show ?thesis
    proof cases
      case 1
      from spread_candidates_sound [OF c1 1] c show ?thesis by simp
    next
      case 2
      from single_candidates_sound [OF c2 2] c show ?thesis by simp
    qed
  qed
  have imm: "\<forall>s why. (s, m, ps, why) \<notin> set cands"
    if dmg: "base_power_or0 m > 0" and tm: "(tgt, ps) \<in> set (tmap (live_opps opps))"
      and e0: "eff ch (move_type m) (Some tgt) = 0" for m tgt ps
  proof -
    have z: "move_score_vs_single ch (Some m) me (Some tgt) mem = Inr 0"
      by (rule immune_score_zero [OF dmg e0])
    have "(s, m, ps, why) \<notin> set cands" for s why
    proof
      assume "(s, m, ps, why) \<in> set cands"
      with cands consider "(s, m, ps, why) \<in> set c1" | "(s, m, ps, why) \<in> set c2"
        by auto
      then show False
      proof cases
        case 1
        from spread_candidates_sound [OF c1 1] tmap_slot [OF tm tm] show False by simp
      next
        case 2
        from single_candidates_sound [OF c2 2] obtain tgt' s0 where
          t': "(tgt', ps) \<in> set (tmap (live_opps opps))"
          and s0: "move_score_vs_single ch (Some m) me (Some tgt') mem = Inr s0" "s0 \<noteq> 0"
          by auto
        from tmap_slot [OF t' tm] have "tgt' = tgt" by simp
        with s0 z show False by simp
      qed
    qed
    then show ?thesis by simp
  qed
  have zero: "\<forall>m me' tgt mem'. base_power_or0 m > 0 \<and> eff ch (move_type m) tgt = 0
          \<longrightarrow> move_score_vs_single ch (Some m) me' tgt mem' = Inr 0"
    by (simp add: immune_score_zero)
  from imm have pairs: "\<forall>m tgt ps. base_power_or0 m > 0
            \<and> (tgt, ps) \<in> set (tmap (live_opps opps))
            \<and> eff ch (move_type m) (Some tgt) = 0
          \<longrightarrow> (\<forall>s why. (s, m, ps, why) \<notin> set cands)"
    by (intro allI impI) (elim conjE, rule imm [rule_format])
  from pos have "\<forall>c\<in>set cands. 0 < fst c" by simp
  with zero pairs show ?thesis by (intro conjI)
qed

lemma ex_opp_fields:
  "fainted ex_opp_fire = False" "fainted ex_opp_bird = False"
  "types ex_opp_fire = [''Fire'']" "types ex_opp_bird = [''Flying'']"
  "current_hp_fraction ex_opp_fire = Some 1" "last_move ex_opp_fire = None"
  by (simp_all add: ex_opp_fire_def ex_opp_bird_def ex_mon_def)

lemma ex_opps_eff:
  "eff ex_chart (Some ''Ground'') (Some ex_opp_fire) = 2"
  "eff ex_chart (Some ''Ground'') (Some ex_opp_bird) = 0"
  by (simp_all add: eff_def ex_chart_def ex_opp_fields)

lemma ex_drillrun_facts:
  "base_power ex_drillrun = Some 80"
  "base_power_or0 ex_drillrun = 80"
  "move_type ex_drillrun = Some ''Ground''"
  "lower (or_empty (move_id ex_drillrun)) = ''drillrun''"
  "target_str ex_drillrun = ''normal''"
  "is_physical ex_drillrun"
  "acc ex_drillrun = 0.95"
  "recharge ex_drillrun = False"
  by (simp_all add: ex_drillrun_def base_power_or0_def or_empty_def lower_def lower_char_def
      is_physical_def acc_def target_str_def)

lemma ex_swordsdance_target: "target_str ex_swordsdance = ''self''"
  by (simp add: target_str_def ex_swordsdance_def lower_def lower_char_def)

lemma ex_not_spread:
  "\<not> is_spread ex_drillrun" "\<not> is_spread ex_swordsdance"
  unfolding is_spread_def Let_def ex_drillrun_facts ex_swordsdance_facts ex_swordsdance_target
  by (simp_all add: SPREAD_HINTS_def)

lemma ex_mon_neutral: "atk_mult (Some ex_mon) m = Inr 1"
  by (simp add: atk_mult_def boost_def status_of_def ex_mon_fields stage_mod_quotient
      overflows_def double_eval)

lemma ex_drillrun_scores:
  "move_score_vs_single ex_chart (Some ex_drillrun) (Some ex_mon) (Some ex_opp_fire) ex_mem
     = Inr 170.24"
  "move_score_vs_single ex_chart (Some ex_drillrun) (Some ex_mon) (Some ex_opp_bird) ex_mem
     = Inr 0"
  by (simp_all add: move_score_vs_single_def attack_score_def ex_drillrun_facts ex_opps_eff
      ex_mon_neutral stab_def ex_mon_fields ex_opp_fields
      protect_risk_factor_def HARMFUL_ALLY_SINGLES_def sublist_code)

lemma ex_swordsdance_score:
  "move_score_vs_single ex_chart (Some ex_swordsdance) (Some ex_mon) tgt ex_mem = Inr 26"
  by (simp add: move_score_vs_single_def base_power_or0_def ex_swordsdance_facts
      setup_ids_cases boost_def ex_mon_fields)

lemma ex_tmap:
  "tmap (live_opps [Some ex_opp_fire, Some ex_opp_bird]) = [(ex_opp_fire, 1), (ex_opp_bird, 2)]"
  by (simp add: tmap_def ex_opp_fields)

lemma ex_candidates:
  "build_candidates ex_chart [ex_drillrun, ex_swordsdance] (Some ex_mon)
      [Some ex_opp_fire, Some ex_opp_bird] ex_mem None None
   = Inr [(170.24, ex_drillrun, 1, ''single''), (26, ex_swordsdance, 1, ''single''),
          (26, ex_swordsdance, 2, ''single'')]"
  unfolding build_candidates_def ex_tmap
  by (simp add: ex_not_spread ex_drillrun_scores ex_swordsdance_score)

theorem candidates_positive_no_immune_witness:
  "build_candidates ex_chart [ex_drillrun, ex_swordsdance] (Some ex_mon)
      [Some ex_opp_fire, Some ex_opp_bird] ex_mem None None
   = Inr [(170.24, ex_drillrun, 1, ''single''), (26, ex_swordsdance, 1, ''single''),
          (26, ex_swordsdance, 2, ''single'')]
   \<and> base_power_or0 ex_drillrun > 0
   \<and> (ex_opp_bird, 2) \<in> set (tmap (live_opps [Some ex_opp_fire, Some ex_opp_bird]))
   \<and> eff ex_chart (move_type ex_drillrun) (Some ex_opp_bird) = 0
   \<and> move_score_vs_single ex_chart (Some ex_drillrun) (Some ex_mon) (Some ex_opp_bird) ex_mem
       = Inr 0
   \<and> (170.24 :: real, ex_drillrun, 2 :: nat, ''single'')
       \<notin> set [(170.24, ex_drillrun, 1, ''single''), (26, ex_swordsdance, 1, ''single''),
               (26, ex_swordsdance, 2, ''single'')]"
proof -
  have pre: "base_power_or0 ex_drillrun > 0
     \<and> (ex_opp_bird, 2) \<in> set (tmap (live_opps [Some ex_opp_fire, Some ex_opp_bird]))
     \<and> eff ex_chart (move_type ex_drillrun) (Some ex_opp_bird) = 0"
    unfolding ex_tmap by (simp add: ex_drillrun_facts ex_opps_eff)
  note scores = candidates_positive_no_immune [OF ex_candidates, THEN conjunct1, rule_format,
      of ex_drillrun "Some ex_opp_bird" "Some ex_mon" ex_mem]
  note pairs = candidates_positive_no_immune [OF ex_candidates, THEN conjunct2, THEN conjunct1,
      rule_format, of ex_drillrun ex_opp_bird 2 "170.24" "''single''", OF pre]
  from pre have "base_power_or0 ex_drillrun > 0
      \<and> eff ex_chart (move_type ex_drillrun) (Some ex_opp_bird) = 0"
    by simp
  from scores [OF this] have zero: "move_score_vs_single ex_chart (Some ex_drillrun)
       (Some ex_mon) (Some ex_opp_bird) ex_mem = Inr 0" .
  from ex_candidates pre zero pairs show ?thesis by simp
qed

section \<open>The opponent profile memory\<close>

lemma get_series_mem_memory:
  "series_memory (snd (get_series_mem st b)) =
     (case series_memory st (opp_key b) of
        None \<Rightarrow> (series_memory st)(opp_key b \<mapsto> \<lparr>protect = False, speed_ctrl = False\<rparr>)
      | Some p \<Rightarrow> series_memory st)"
  by (simp add: get_series_mem_def Let_def split: option.split)

lemma get_series_mem_profile:
  "series_memory (snd (get_series_mem st b)) (opp_key b) = Some (fst (get_series_mem st b))"
  by (simp add: get_series_mem_def Let_def split: option.split)

lemma note_target_memory: "series_memory (note_target st best) = series_memory st"
  by (simp add: note_target_def split: prod.split option.split)

lemma choose_move_try_memory:
  "series_memory (snd (choose_move_try cl ch st b)) = series_memory (snd (get_series_mem st b))"
  by (cases "get_series_mem st b")
     (simp add: choose_move_try_def Let_def note_target_memory
        split: list.split sum.split option.split)

lemma choose_move_memory:
  "series_memory (snd (choose_move cl ch st b)) = series_memory (snd (get_series_mem st b))"
  using choose_move_try_memory [of cl ch st b]
  by (cases "choose_move_try cl ch st b")
     (simp add: choose_move_def split: sum.split raised.split)

lemma scan_team_mono:
  "(protect mem \<longrightarrow> protect (scan_team team mem))
   \<and> (speed_ctrl mem \<longrightarrow> speed_ctrl (scan_team team mem))"
proof (induction team mem rule: scan_team.induct)
  case (1 mem)
  show ?case by simp
next
  case (2 ms mem)
  then show ?case by simp
next
  case (3 mon ms mem)
  then show ?case by (simp add: Let_def split: if_splits)
qed

lemma get_series_mem_keeps:
  assumes "series_memory st k = Some p"
  shows "series_memory (snd (get_series_mem st b)) k = Some p"
  using assms by (auto simp: get_series_mem_memory split: option.split)

lemma update_mono:
  assumes "series_memory st k = Some p"
  shows "\<exists>p'. series_memory (update_series_mem_from_battle st b) k = Some p'
           \<and> (protect p \<longrightarrow> protect p') \<and> (speed_ctrl p \<longrightarrow> speed_ctrl p')"
proof (cases "k = opp_key b")
  case False
  with get_series_mem_keeps [OF assms, of b] show ?thesis
    by (cases "get_series_mem st b") (simp add: update_series_mem_from_battle_def)
next
  case True
  with assms have "fst (get_series_mem st b) = p"
    by (simp add: get_series_mem_def)
  with True scan_team_mono [of p "opponent_team b"] show ?thesis
    by (cases "get_series_mem st b") (simp add: update_series_mem_from_battle_def)
qed

lemma run_mono:
  assumes "series_memory st k = Some p"
  shows "\<exists>p'. series_memory (run cl ch st evs) k = Some p'
           \<and> (protect p \<longrightarrow> protect p') \<and> (speed_ctrl p \<longrightarrow> speed_ctrl p')"
  using assms
proof (induction evs arbitrary: st p)
  case Nil
  then show ?case by simp
next
  case (Cons ev evs)
  show ?case
  proof (cases ev)
    case (ChooseMove b)
    from get_series_mem_keeps [OF Cons.prems, of b]
    have "series_memory (snd (choose_move cl ch st b)) k = Some p"
      by (simp add: choose_move_memory)
    from Cons.IH [OF this] ChooseMove show ?thesis by simp
  next
    case (BattleFinished b)
    from update_mono [OF Cons.prems, of b] obtain q where
      q: "series_memory (battle_finished_callback st b) k = Some q"
      and pq: "protect p \<longrightarrow> protect q" "speed_ctrl p \<longrightarrow> speed_ctrl q"
      by (auto simp: battle_finished_callback_def)
    from Cons.IH [OF q] obtain r where
      "series_memory (run cl ch (battle_finished_callback st b) evs) k = Some r"
      "protect q \<longrightarrow> protect r" "speed_ctrl q \<longrightarrow> speed_ctrl r"
      by auto
    with pq BattleFinished show ?thesis by auto
  qed
qed

text \<open>
  Claim C8. The profile of an opponent is created on first reference with both flags
  false, and a reference to a profile that exists returns it and changes nothing. Over
  every sequence of turns and finished battles, a profile that exists stays, and a flag
  that is true stays true.
\<close>

theorem profile_lazy_monotone:
  "(series_memory st (opp_key b) = None \<longrightarrow>
      get_series_mem st b =
        (\<lparr>protect = False, speed_ctrl = False\<rparr>,
         st\<lparr>series_memory :=
              (series_memory st)(opp_key b \<mapsto> \<lparr>protect = False, speed_ctrl = False\<rparr>)\<rparr>))
   \<and> (\<forall>p. series_memory st (opp_key b) = Some p \<longrightarrow> get_series_mem st b = (p, st))
   \<and> (\<forall>k p. series_memory st k = Some p \<longrightarrow>
         (\<exists>p'. series_memory (run cl ch st evs) k = Some p'
            \<and> (protect p \<longrightarrow> protect p') \<and> (speed_ctrl p \<longrightarrow> speed_ctrl p')))"
  using run_mono [of st _ _ cl ch evs] by (simp add: get_series_mem_def Let_def)

lemma update_memory:
  "series_memory (update_series_mem_from_battle st b) =
     (series_memory st)(opp_key b \<mapsto> scan_team (opponent_team b)
        (case series_memory st (opp_key b) of
           None \<Rightarrow> \<lparr>protect = False, speed_ctrl = False\<rparr>
         | Some p \<Rightarrow> p))"
  by (simp add: update_series_mem_from_battle_def get_series_mem_def Let_def
      split: option.split)

lemma ex_keys:
  "opp_key ex_battle_broken = ''rival''" "opp_key ex_battle_tailwind = ''rival''"
  "opp_key ex_battle_anon1 = ''_unknown_''" "opp_key ex_battle_anon2 = ''_unknown_''"
  by (simp_all add: opp_key_def ex_battle_broken_def ex_battle_tailwind_def
      ex_battle_anon1_def ex_battle_anon2_def)

lemma ex_tailwind_team:
  "scan_team (opponent_team ex_battle_tailwind) \<lparr>protect = x, speed_ctrl = y\<rparr>
     = \<lparr>protect = x, speed_ctrl = True\<rparr>"
  by (simp add: ex_battle_tailwind_def mon_ids_def ex_tailwind_def or_empty_def lower_def
      lower_char_def PROTECT_IDS_def SPEED_CTRL_def)

theorem profile_lazy_monotone_witness:
  "series_memory ex_state (opp_key ex_battle_tailwind) = None
   \<and> get_series_mem ex_state ex_battle_tailwind =
        (\<lparr>protect = False, speed_ctrl = False\<rparr>,
         ex_state\<lparr>series_memory :=
              (series_memory ex_state)(opp_key ex_battle_tailwind
                 \<mapsto> \<lparr>protect = False, speed_ctrl = False\<rparr>)\<rparr>)
   \<and> series_memory ex_state_seen ''rival'' = Some \<lparr>protect = True, speed_ctrl = False\<rparr>
   \<and> series_memory
        (run ex_client ex_chart ex_state_seen [ChooseMove ex_battle_broken, BattleFinished ex_battle_tailwind])
        ''rival'' = Some \<lparr>protect = True, speed_ctrl = True\<rparr>"
proof -
  have none: "series_memory ex_state (opp_key ex_battle_tailwind) = None"
    by (simp add: ex_state_def)
  have seen: "series_memory ex_state_seen ''rival'' = Some \<lparr>protect = True, speed_ctrl = False\<rparr>"
    by (simp add: ex_state_seen_def)
  have after: "series_memory
        (run ex_client ex_chart ex_state_seen [ChooseMove ex_battle_broken, BattleFinished ex_battle_tailwind])
        ''rival'' = Some \<lparr>protect = True, speed_ctrl = True\<rparr>"
    by (simp add: battle_finished_callback_def update_memory choose_move_memory
        get_series_mem_memory ex_keys seen ex_tailwind_team)
  from profile_lazy_monotone [of ex_state ex_battle_tailwind ex_client ex_chart "[]"]
    profile_lazy_monotone [of ex_state_seen ex_battle_tailwind ex_client ex_chart
      "[ChooseMove ex_battle_broken, BattleFinished ex_battle_tailwind]"]
    none seen after
  show ?thesis by simp
qed


lemma protect_ids_cases:
  "utility_score ''protect'' me mem = 28 + (if protect mem then 3 else 0)"
  "utility_score ''detect'' me mem = 28 + (if protect mem then 3 else 0)"
  "utility_score ''spikyshield'' me mem = 28 + (if protect mem then 3 else 0)"
  "utility_score ''kingsshield'' me mem = 28 + (if protect mem then 3 else 0)"
  "utility_score ''banefulbunker'' me mem = 28 + (if protect mem then 3 else 0)"
  "utility_score ''silktrap'' me mem = 28 + (if protect mem then 3 else 0)"
  by (simp_all add: utility_score_def any_in_def SETUP_IDS_def SPEED_CTRL_def REDIRECT_IDS_def
      PROTECT_IDS_def sublist_code)

lemma protect_score:
  assumes "mid \<in> PROTECT_IDS"
  shows "utility_score mid me mem = 28 + (if protect mem then 3 else 0)"
proof -
  from assms have "mid = ''protect'' \<or> mid = ''detect'' \<or> mid = ''spikyshield''
    \<or> mid = ''kingsshield'' \<or> mid = ''banefulbunker'' \<or> mid = ''silktrap''"
    by (simp add: PROTECT_IDS_def)
  then show ?thesis
  proof (elim disjE)
    assume "mid = ''protect''" then show ?thesis by (simp only: protect_ids_cases)
  next
    assume "mid = ''detect''" then show ?thesis by (simp only: protect_ids_cases)
  next
    assume "mid = ''spikyshield''" then show ?thesis by (simp only: protect_ids_cases)
  next
    assume "mid = ''kingsshield''" then show ?thesis by (simp only: protect_ids_cases)
  next
    assume "mid = ''banefulbunker''" then show ?thesis by (simp only: protect_ids_cases)
  next
    assume "mid = ''silktrap''" then show ?thesis by (simp only: protect_ids_cases)
  qed
qed

lemma scan_team_sets_protect:
  assumes "Some mon \<in> set team" and "mon_ids mon \<inter> PROTECT_IDS \<noteq> {}"
  shows "protect (scan_team team mem)"
  using assms(1)
proof (induction team arbitrary: mem)
  case Nil
  then show ?case by simp
next
  case (Cons x team)
  show ?case
  proof (cases x)
    case None
    with Cons show ?thesis by simp
  next
    case (Some mon0)
    show ?thesis
    proof (cases "mon0 = mon")
      case True
      from assms(2) have ne: "moves mon \<noteq> []" by (auto simp: mon_ids_def)
      have step: "protect (scan_team team y)" if "protect y" for y
        using scan_team_mono [of y team] that by simp
      from True Some ne assms(2) show ?thesis by (simp add: Let_def step)
    next
      case False
      with Cons.prems Some have "Some mon \<in> set team" by simp
      from Cons.IH [OF this] Some show ?thesis by (simp add: Let_def)
    qed
  qed
qed

text \<open>
  Claim C9. Two battles whose opponent name is absent or empty both use the key
  \<open>_unknown_\<close>: what the end of the first writes is the profile the second reads; and
  where the first showed a protection move, a protection move scores 31 (28 plus 3)
  under the profile of the second.
\<close>

theorem unknown_opponents_share_profile:
  assumes "opponent_username b1 = None \<or> opponent_username b1 = Some []"
    and "opponent_username b2 = None \<or> opponent_username b2 = Some []"
  shows "opp_key b1 = ''_unknown_'' \<and> opp_key b2 = ''_unknown_''
     \<and> series_memory (battle_finished_callback st b1) ''_unknown_''
          = Some (scan_team (opponent_team b1) (fst (get_series_mem st b1)))
     \<and> get_series_mem (battle_finished_callback st b1) b2
          = (scan_team (opponent_team b1) (fst (get_series_mem st b1)),
             battle_finished_callback st b1)
     \<and> ((\<exists>mon. Some mon \<in> set (opponent_team b1) \<and> mon_ids mon \<inter> PROTECT_IDS \<noteq> {}) \<longrightarrow>
          (\<forall>m. (base_power m = None \<or> base_power m = Some 0)
                 \<and> lower (or_empty (move_id m)) \<in> PROTECT_IDS \<longrightarrow>
               move_score_vs_single ch (Some m) me tgt
                 (fst (get_series_mem (battle_finished_callback st b1) b2)) = Inr 31))"
proof -
  from assms have k1: "opp_key b1 = ''_unknown_''" and k2: "opp_key b2 = ''_unknown_''"
    by (auto simp: opp_key_def)
  let ?p = "scan_team (opponent_team b1) (fst (get_series_mem st b1))"
  have w: "series_memory (battle_finished_callback st b1) ''_unknown_'' = Some ?p"
    by (simp add: battle_finished_callback_def update_memory k1 get_series_mem_def Let_def
        split: option.split)
  have r: "get_series_mem (battle_finished_callback st b1) b2
          = (?p, battle_finished_callback st b1)"
    using w by (simp add: get_series_mem_def k2)
  have bias: "move_score_vs_single ch (Some m) me tgt
                 (fst (get_series_mem (battle_finished_callback st b1) b2)) = Inr 31"
    if seen: "Some mon \<in> set (opponent_team b1)" "mon_ids mon \<inter> PROTECT_IDS \<noteq> {}"
      and m: "base_power m = None \<or> base_power m = Some 0"
        "lower (or_empty (move_id m)) \<in> PROTECT_IDS" for mon m
  proof -
    from scan_team_sets_protect [OF seen] have "protect ?p" .
    with protect_score [OF m(2), of me ?p]
    have "utility_score (lower (or_empty (move_id m))) me ?p = 31" by simp
    with m(1) show ?thesis
      unfolding r move_score_vs_single_def base_power_or0_def Let_def
      by (elim disjE) simp_all
  qed
  from k1 k2 w r bias show ?thesis by blast
qed


lemma ex_protect_facts:
  "base_power ex_protect = Some 0"
  "lower (or_empty (move_id ex_protect)) = ''protect''"
  "target_str ex_protect = ''self''"
  by (simp_all add: ex_protect_def or_empty_def lower_def lower_char_def target_str_def)

lemma ex_anon_names:
  "opponent_username ex_battle_anon1 = None" "opponent_username ex_battle_anon2 = Some []"
  by (simp_all add: ex_battle_anon1_def ex_battle_anon2_def)

lemma ex_anon1_team:
  "scan_team (opponent_team ex_battle_anon1) \<lparr>protect = False, speed_ctrl = False\<rparr>
     = \<lparr>protect = True, speed_ctrl = False\<rparr>"
  by (simp add: ex_battle_anon1_def mon_ids_def ex_protect_def or_empty_def lower_def
      lower_char_def PROTECT_IDS_def SPEED_CTRL_def)

lemma ex_anon_profile:
  "fst (get_series_mem (battle_finished_callback ex_state ex_battle_anon1) ex_battle_anon2)
     = \<lparr>protect = True, speed_ctrl = False\<rparr>"
  by (simp add: get_series_mem_def battle_finished_callback_def update_memory ex_keys
      ex_state_def ex_anon1_team Let_def)

lemma ex_protect_scores:
  "move_score_vs_single ex_chart (Some ex_protect) me tgt mem
     = Inr (28 + (if protect mem then 3 else 0))"
  by (simp add: move_score_vs_single_def base_power_or0_def ex_protect_facts
      protect_ids_cases)

theorem unknown_opponents_share_profile_witness:
  "opponent_username ex_battle_anon1 = None
   \<and> opponent_username ex_battle_anon2 = Some []
   \<and> opp_key ex_battle_anon1 = ''_unknown_'' \<and> opp_key ex_battle_anon2 = ''_unknown_''
   \<and> fst (get_series_mem (battle_finished_callback ex_state ex_battle_anon1) ex_battle_anon2)
        = \<lparr>protect = True, speed_ctrl = False\<rparr>
   \<and> move_score_vs_single ex_chart (Some ex_protect) (Some ex_mon) (Some ex_opp_fire)
        (fst (get_series_mem (battle_finished_callback ex_state ex_battle_anon1) ex_battle_anon2))
        = Inr 31
   \<and> move_score_vs_single ex_chart (Some ex_protect) (Some ex_mon) (Some ex_opp_fire)
        (fst (get_series_mem ex_state ex_battle_anon2)) = Inr 28"
proof -
  have fresh: "fst (get_series_mem ex_state ex_battle_anon2)
     = \<lparr>protect = False, speed_ctrl = False\<rparr>"
    by (simp add: get_series_mem_def ex_keys ex_state_def Let_def)
  note shared = unknown_opponents_share_profile [of ex_battle_anon1 ex_battle_anon2 ex_state
      ex_chart "Some ex_mon" "Some ex_opp_fire", OF disjI1 [OF ex_anon_names(1)]
      disjI2 [OF ex_anon_names(2)]]
  note k1 = shared [THEN conjunct1]
  note k2 = shared [THEN conjunct2, THEN conjunct1]
  show ?thesis
    by (simp add: ex_anon_names k1 k2 ex_anon_profile ex_protect_scores fresh)
qed

section \<open>The handler of the turn\<close>




lemma ex_lowered_ident: "ident ex_lowered = 1" "ident ex_mon = 0"
  by (simp_all add: ex_lowered_def ex_mon_def)









end
